theory Spec2Isabelle
  imports Main "HOL-Library.Word"
begin

unbundle bit_operations_syntax

section \<open>Go values used by package ipvs\<close>

text \<open>
  Go's fixed-width unsigned integers are words. \<open>uint\<close> is taken at its 64-bit width
  (linux/amd64); the only \<open>uint\<close> values of the package are converted from a 32-bit
  value, so a 32-bit \<open>uint\<close> would hold the same numbers. A pointer \<open>*T\<close> is a
  \<open>T ptr\<close>, with \<open>None\<close> for \<open>nil\<close>. A Go \<open>error\<close> result is an
  \<open>error option\<close>, with \<open>None\<close> for \<open>nil\<close>.
\<close>

type_synonym uint8 = "8 word"
type_synonym uint16 = "16 word"
type_synonym uint32 = "32 word"
type_synonym uint64 = "64 word"
type_synonym uint = "64 word"
type_synonym 'a ptr = "'a option"

text \<open>
  An error value is either an errno reported by a system call or the kernel, or a
  message built by \<open>fmt.Errorf\<close> / \<open>errors.New\<close>.
\<close>

datatype error = Errno nat | Errorf string

subsection \<open>The \<open>%d\<close> verb of package fmt on unsigned values\<close>

definition digit :: "nat \<Rightarrow> char" where
  "digit n = ''0123456789'' ! n"

function fmt_d :: "nat \<Rightarrow> string" where
  "fmt_d n = (if n < 10 then [digit n] else fmt_d (n div 10) @ [digit (n mod 10)])"
  by pat_completeness auto
termination
  by (relation "measure (\<lambda>n. n)") auto

declare fmt_d.simps [simp del]

section \<open>IPProto\<close>

text \<open>\<open>type IPProto uint16\<close>, with the two protocol numbers of package syscall.\<close>

type_synonym IPProto = uint16

definition IPPROTO_TCP :: IPProto where
  "IPPROTO_TCP = 6"

definition IPPROTO_UDP :: IPProto where
  "IPPROTO_UDP = 17"

text \<open>
  \<open>IPProto.String\<close>: the switch on the two known numbers, then
  \<open>fmt.Sprintf("IP(%d)", p)\<close>. The verb \<open>%d\<close> prints the number (fmt calls a
  \<open>String\<close> method only for the verbs \<open>%v\<close>, \<open>%s\<close>, \<open>%q\<close>, \<open>%x\<close>, \<open>%X\<close>).
\<close>

definition IPProto_String :: "IPProto \<Rightarrow> string" where
  "IPProto_String p =
     (if p = IPPROTO_TCP then ''TCP''
      else if p = IPPROTO_UDP then ''UDP''
      else ''IP('' @ fmt_d (unat p) @ '')'')"

definition IPProto_Value :: "IPProto \<Rightarrow> uint16" where
  "IPProto_Value p = p"

section \<open>Entities\<close>

text \<open>\<open>net.IP\<close> is a byte slice; the nil slice is the empty list.\<close>

type_synonym IP = "uint8 list"

record SvcStats =
  Connections :: uint32
  PacketsIn :: uint32
  PacketsOut :: uint32
  BytesIn :: uint64
  BytesOut :: uint64
  CPS :: uint32
  BPSOut :: uint32
  PPSIn :: uint32
  PPSOut :: uint32
  BPSIn :: uint32

type_synonym DstStats = SvcStats

text \<open>
  \<open>Destination\<close> is declared before \<open>Service\<close> so that the field names the two
  structs share (\<open>Address\<close>, \<open>Port\<close>, \<open>AddressFamily\<close>, \<open>Stats\<close>) read as the
  fields of \<open>Service\<close> below. Go's \<open>int\<close> fields are integers.
\<close>

record Destination =
  Address :: IP
  Port :: uint16
  Weight :: int
  ConnectionFlags :: uint32
  AddressFamily :: uint16
  UpperThreshold :: uint32
  LowerThreshold :: uint32
  ActiveConnections :: int
  InactiveConnections :: int
  PersistentConnections :: int
  Stats :: DstStats

record Service =
  Address :: IP
  Protocol :: IPProto
  Port :: uint16
  FWMark :: uint32
  SchedName :: string
  Flags :: uint32
  Timeout :: uint32
  Netmask :: uint32
  AddressFamily :: uint16
  PEName :: string
  Stats :: SvcStats

text \<open>
  \<open>Service.String\<close>. The two methods of \<open>net.IP\<close> it calls belong to Go's standard
  library and are parameters: \<open>To4\<close> (\<open>None\<close> for a nil result) and \<open>IP_String\<close>
  (what \<open>%v\<close> prints for a \<open>net.IP\<close>). \<open>%v\<close> on the protocol prints
  \<open>IPProto.String\<close>, \<open>%d\<close> the number and \<open>%s\<close> the string itself.
\<close>

definition Service_String :: "(IP \<Rightarrow> IP option) \<Rightarrow> (IP \<Rightarrow> string) \<Rightarrow> Service \<Rightarrow> string" where
  "Service_String To4 IP_String svc =
     (if FWMark svc > 0 then
        ''FMW '' @ fmt_d (unat (FWMark svc)) @ '' ('' @ SchedName svc @ '')''
      else if To4 (Service.Address svc) = None then
        IPProto_String (Protocol svc) @ '' ['' @ IP_String (Service.Address svc) @ '']:'' @
          fmt_d (unat (Service.Port svc)) @ '' ('' @ SchedName svc @ '')''
      else
        IPProto_String (Protocol svc) @ '' '' @ IP_String (Service.Address svc) @ '':'' @
          fmt_d (unat (Service.Port svc)) @ '' ('' @ SchedName svc @ '')'')"

record Version =
  Major :: uint
  Minor :: uint
  Patch :: uint

definition Version_String :: "Version \<Rightarrow> string" where
  "Version_String v =
     fmt_d (unat (Major v)) @ ''.'' @ fmt_d (unat (Minor v)) @ ''.'' @ fmt_d (unat (Patch v))"

record Info =
  Version :: "Version ptr"
  ConnTableSize :: uint32

section \<open>Handle\<close>

text \<open>
  The netlink socket (package nl) and the namespace handle (package netns) belong to
  other modules. A socket is known by its file descriptor; \<open>netns.None()\<close> is the
  handle \<open>-1\<close>; a \<open>unix.Timeval\<close> is seconds and microseconds; a
  \<open>time.Duration\<close> is a number of nanoseconds.
\<close>

datatype NetlinkSocket = NetlinkSocket int

type_synonym NsHandle = int

definition netns_None :: NsHandle where
  "netns_None = - 1"

record Timeval =
  Sec :: int
  Usec :: int

type_synonym Duration = int

definition Second :: Duration where
  "Second = 1000000000"

definition Nanoseconds :: "Duration \<Rightarrow> int" where
  "Nanoseconds d = d"

definition NETLINK_GENERIC :: int where
  "NETLINK_GENERIC = 16"

definition netlinkRecvSocketsTimeout :: Duration where
  "netlinkRecvSocketsTimeout = 3 * Second"

definition netlinkSendSocketTimeout :: Duration where
  "netlinkSendSocketTimeout = 30 * Second"

record Handle =
  seq :: uint32
  sock :: "NetlinkSocket ptr"

text \<open>
  What the functions of other modules answer when \<open>New\<close> calls them. A call that
  returns a value and an error is a sum: the error, or the value.
\<close>

record externals =
  GetFromPath :: "string \<Rightarrow> error + NsHandle"
  GetNetlinkSocketAt :: "NsHandle \<Rightarrow> NsHandle \<Rightarrow> int \<Rightarrow> error + NetlinkSocket"
  NsecToTimeval :: "int \<Rightarrow> Timeval"
  SetSendTimeout :: "NetlinkSocket \<Rightarrow> Timeval \<Rightarrow> error option"
  SetReceiveTimeout :: "NetlinkSocket \<Rightarrow> Timeval \<Rightarrow> error option"

text \<open>
  The effects of \<open>New\<close> and \<open>Close\<close> are the calls they make, in order.
  \<open>setup()\<close> is a function of this package whose body is not in ipvs.go; it takes
  no argument and returns nothing, and is recorded as one call.
\<close>

datatype call =
  Call_setup
| Call_GetFromPath string
| Call_GetNetlinkSocketAt NsHandle NsHandle int
| Call_SetSendTimeout NetlinkSocket Timeval
| Call_SetReceiveTimeout NetlinkSocket Timeval
| Call_NsHandle_Close NsHandle
| Call_NetlinkSocket_Close NetlinkSocket

text \<open>
  \<open>New\<close>, from the deferred \<open>n.Close()\<close> on: the deferred call is the last call
  of every return of this part.
\<close>

definition New_socket ::
  "externals \<Rightarrow> NsHandle \<Rightarrow> call list \<Rightarrow> (Handle ptr \<times> error option) \<times> call list" where
  "New_socket X n t =
     (case GetNetlinkSocketAt X n netns_None NETLINK_GENERIC of
        Inl err \<Rightarrow>
          ((None, Some err),
           t @ [Call_GetNetlinkSocketAt n netns_None NETLINK_GENERIC, Call_NsHandle_Close n])
      | Inr sk \<Rightarrow>
          (let tv = NsecToTimeval X (Nanoseconds netlinkSendSocketTimeout);
               t1 = t @ [Call_GetNetlinkSocketAt n netns_None NETLINK_GENERIC,
                         Call_SetSendTimeout sk tv]
           in case SetSendTimeout X sk tv of
                Some err \<Rightarrow> ((None, Some err), t1 @ [Call_NsHandle_Close n])
              | None \<Rightarrow>
                  (let tv' = NsecToTimeval X (Nanoseconds netlinkRecvSocketsTimeout);
                       t2 = t1 @ [Call_SetReceiveTimeout sk tv']
                   in case SetReceiveTimeout X sk tv' of
                        Some err \<Rightarrow> ((None, Some err), t2 @ [Call_NsHandle_Close n])
                      | None \<Rightarrow>
                          ((Some \<lparr>seq = 0, sock = Some sk\<rparr>, None),
                           t2 @ [Call_NsHandle_Close n]))))"

text \<open>\<open>New\<close>: the result (handle, error) and the calls made.\<close>

definition New :: "externals \<Rightarrow> string \<Rightarrow> (Handle ptr \<times> error option) \<times> call list" where
  "New X path =
     (if path \<noteq> [] then
        (case GetFromPath X path of
           Inl err \<Rightarrow> ((None, Some err), [Call_setup, Call_GetFromPath path])
         | Inr n \<Rightarrow> New_socket X n [Call_setup, Call_GetFromPath path])
      else New_socket X netns_None [Call_setup])"

text \<open>
  \<open>Close\<close> reads \<open>i.sock\<close> through its receiver: on a nil receiver that is a
  run-time panic. It returns nothing; the result is the calls it makes.
\<close>

datatype panic = nil_pointer_dereference

definition Close :: "Handle ptr \<Rightarrow> panic + call list" where
  "Close i =
     (case i of
        None \<Rightarrow> Inl nil_pointer_dereference
      | Some h \<Rightarrow>
          (case sock h of
             Some sk \<Rightarrow> Inr [Call_NetlinkSocket_Close sk]
           | None \<Rightarrow> Inr []))"

section \<open>Commands\<close>

text \<open>
  The command codes are constants of this package declared outside ipvs.go; only their
  names are used here.
\<close>

datatype ipvsCmd =
  ipvsCmdNewService
| ipvsCmdGetService
| ipvsCmdSetService
| ipvsCmdDelService
| ipvsCmdFlush
| ipvsCmdZero
| ipvsCmdNewDest
| ipvsCmdSetDest
| ipvsCmdDelDest

text \<open>
  The exchanges with the kernel (\<open>doCmd\<close>, \<open>doGetServicesCmd\<close>, \<open>doGetInfoCmd\<close>)
  are methods of \<open>Handle\<close> whose bodies are not in ipvs.go. The functions of ipvs.go
  that call them take them as parameters, with Go's result shape: a method returning
  \<open>(value, error)\<close> returns a pair, since nothing here says that one of the two is nil.
\<close>

type_synonym doCmd_method =
  "Handle ptr \<Rightarrow> Service ptr \<Rightarrow> Destination ptr \<Rightarrow> ipvsCmd \<Rightarrow> error option"

type_synonym doGetServicesCmd_method =
  "Handle ptr \<Rightarrow> Service ptr \<Rightarrow> Service ptr list \<times> error option"

definition NewService :: "doCmd_method \<Rightarrow> Handle ptr \<Rightarrow> Service ptr \<Rightarrow> error option" where
  "NewService doCmd i s = doCmd i s None ipvsCmdNewService"

definition IsServicePresent :: "doCmd_method \<Rightarrow> Handle ptr \<Rightarrow> Service ptr \<Rightarrow> bool" where
  "IsServicePresent doCmd i s = (None = doCmd i s None ipvsCmdGetService)"

definition GetServices ::
  "doGetServicesCmd_method \<Rightarrow> Handle ptr \<Rightarrow> Service ptr list \<times> error option" where
  "GetServices doGetServicesCmd i = doGetServicesCmd i None"

text \<open>
  \<open>GetService\<close>. \<open>res[0]\<close> is read only where \<open>len(res) = 1\<close>, so the index is in
  range.
\<close>

definition GetService ::
  "doGetServicesCmd_method \<Rightarrow> Handle ptr \<Rightarrow> Service ptr \<Rightarrow> Service ptr \<times> error option" where
  "GetService doGetServicesCmd i s =
     (case doGetServicesCmd i s of
        (res, Some err) \<Rightarrow> (None, Some err)
      | (res, None) \<Rightarrow>
          if length res \<noteq> 1 then
            (None, Some (Errorf (''Expected only one service obtained='' @ fmt_d (length res))))
          else (res ! 0, None))"

text \<open>
  Modelled from the spec: the struct that \<open>doGetInfoCmd\<close> returns is declared outside
  ipvs.go. The spec gives the kernel-reported version as a single 32-bit integer, and
  \<open>connTableSize\<close> is assigned to the \<open>uint32\<close> field \<open>ConnTableSize\<close> unconverted.
\<close>

record ipvsInfo =
  version :: uint32
  connTableSize :: uint32

type_synonym doGetInfoCmd_method = "Handle ptr \<Rightarrow> ipvsInfo \<times> error option"

text \<open>\<open>GetInfo\<close>: \<open>ver := uint(res.version)\<close> widens without changing the value.\<close>

definition GetInfo :: "doGetInfoCmd_method \<Rightarrow> Handle ptr \<Rightarrow> Info ptr \<times> error option" where
  "GetInfo doGetInfoCmd i =
     (case doGetInfoCmd i of
        (res, Some err) \<Rightarrow> (None, Some err)
      | (res, None) \<Rightarrow>
          (let ver = (ucast (version res) :: uint)
           in (Some \<lparr>Version = Some \<lparr>Major = (drop_bit 16 ver) AND 0xff,
                                       Minor = (drop_bit 8 ver) AND 0xff,
                                       Patch = ver AND 0xff\<rparr>,
                      ConnTableSize = connTableSize res\<rparr>,
               None)))"

section \<open>Service attributes\<close>

text \<open>
  The attribute tags the spec names for a Service, and an attribute tree: a leaf with a
  payload, or a container of attributes.
\<close>

datatype attr_type =
  CmdAttrService
| SvcAttrAddressFamily
| SvcAttrProtocol
| SvcAttrAddress
| SvcAttrPort
| SvcAttrFWMark
| SvcAttrSchedName
| SvcAttrFlags
| SvcAttrTimeout
| SvcAttrNetmask
| SvcAttrPEName

datatype payload =
  U16 uint16
| U16_network_order uint16
| U32 uint32
| Raw "uint8 list"
| ZString string
| FlagsMask uint32 uint32

datatype attr = Leaf attr_type payload | Nested attr_type "attr list"

fun attr_types :: "attr \<Rightarrow> attr_type list" where
  "attr_types (Leaf ty v) = [ty]"
| "attr_types (Nested ty kids) = ty # concat (map attr_types kids)"

definition identity_type :: "attr_type \<Rightarrow> bool" where
  "identity_type ty =
     (ty = SvcAttrFWMark \<or> ty = SvcAttrAddressFamily \<or> ty = SvcAttrProtocol \<or>
      ty = SvcAttrAddress \<or> ty = SvcAttrPort)"

definition AF_INET :: uint16 where
  "AF_INET = 2"

definition AF_INET6 :: uint16 where
  "AF_INET6 = 10"

text \<open>
  Modelled from the spec: the Entity Translator's mapping of a Service to its attribute
  tree; the encoder is code of this package that is not in ipvs.go. From section 4.2:
  identity attributes first (either the firewall-mark integer, or address-family +
  protocol + address + port), then option attributes (scheduler name string,
  flags+mask pair, timeout, netmask, persistence-engine name); the firewall-mark mode
  is the one used when \<open>FWMark > 0\<close> (section 3); an address family that is not set
  is derived from the length of the address; strings are null-terminated, the port is
  in network byte order, and the persistence-engine name is optional. The mask of the
  flags pair is an argument.
\<close>

definition identity_attributes :: "Service \<Rightarrow> attr list" where
  "identity_attributes s =
     (if FWMark s > 0 then [Leaf SvcAttrFWMark (U32 (FWMark s))]
      else
        [Leaf SvcAttrAddressFamily
           (U16 (if Service.AddressFamily s \<noteq> 0 then Service.AddressFamily s
                 else if length (Service.Address s) = 4 then AF_INET else AF_INET6)),
         Leaf SvcAttrProtocol (U16 (Protocol s)),
         Leaf SvcAttrAddress (Raw (Service.Address s)),
         Leaf SvcAttrPort (U16_network_order (Service.Port s))])"

definition option_attributes :: "uint32 \<Rightarrow> Service \<Rightarrow> attr list" where
  "option_attributes flags_mask s =
     [Leaf SvcAttrSchedName (ZString (SchedName s)),
      Leaf SvcAttrFlags (FlagsMask (Flags s) flags_mask),
      Leaf SvcAttrTimeout (U32 (Timeout s)),
      Leaf SvcAttrNetmask (U32 (Netmask s))] @
     (if PEName s \<noteq> [] then [Leaf SvcAttrPEName (ZString (PEName s))] else [])"

definition encode_Service :: "uint32 \<Rightarrow> Service \<Rightarrow> attr" where
  "encode_Service flags_mask s =
     Nested CmdAttrService (identity_attributes s @ option_attributes flags_mask s)"

section \<open>Zero values\<close>

text \<open>Go's zero values of the two structs, from which the examples below are built.\<close>

definition SvcStats_zero :: SvcStats where
  "SvcStats_zero =
     \<lparr>Connections = 0, PacketsIn = 0, PacketsOut = 0, BytesIn = 0, BytesOut = 0, CPS = 0,
      BPSOut = 0, PPSIn = 0, PPSOut = 0, BPSIn = 0\<rparr>"

definition Service_zero :: Service where
  "Service_zero =
     \<lparr>Address = [], Protocol = 0, Port = 0, FWMark = 0, SchedName = [], Flags = 0,
      Timeout = 0, Netmask = 0, AddressFamily = 0, PEName = [], Stats = SvcStats_zero\<rparr>"

section \<open>An example environment\<close>

text \<open>
  Go's \<open>/\<close> and \<open>%\<close> on integers truncate towards zero.
\<close>

definition go_quo :: "int \<Rightarrow> int \<Rightarrow> int" where
  "go_quo a b =
     (if (a < 0) = (b < 0) then \<bar>a\<bar> div \<bar>b\<bar> else - (\<bar>a\<bar> div \<bar>b\<bar>))"

definition go_rem :: "int \<Rightarrow> int \<Rightarrow> int" where
  "go_rem a b = a - b * go_quo a b"

text \<open>
  \<open>unix.NsecToTimeval\<close> of golang.org/x/sys: it adds 999 to round up to the
  microsecond, splits into seconds and microseconds, and carries a negative
  microsecond part into the seconds. (The overflow of \<open>nsec + 999\<close> at the top of
  \<open>int64\<close> is left out.)
\<close>

definition unix_NsecToTimeval :: "int \<Rightarrow> Timeval" where
  "unix_NsecToTimeval nsec =
     (let nsec' = nsec + 999;
          usec = go_quo (go_rem nsec' 1000000000) 1000;
          sec = go_quo nsec' 1000000000
      in if usec < 0 then \<lparr>Sec = sec - 1, Usec = usec + 1000000\<rparr>
         else \<lparr>Sec = sec, Usec = usec\<rparr>)"

text \<open>
  An environment in which every call of \<open>New\<close> succeeds: the namespace resolves to
  handle 7, the socket opened has descriptor 3, and both timeouts are accepted. The
  failing environments of the examples below change one answer of it.
\<close>

definition all_succeed :: externals where
  "all_succeed =
     \<lparr>GetFromPath = (\<lambda>path. Inr 7),
      GetNetlinkSocketAt = (\<lambda>newNs curNs protocol. Inr (NetlinkSocket 3)),
      NsecToTimeval = unix_NsecToTimeval,
      SetSendTimeout = (\<lambda>sk tv. None),
      SetReceiveTimeout = (\<lambda>sk tv. None)\<rparr>"

section \<open>Theorems\<close>

lemma fmt_d_digit: "n < 10 \<Longrightarrow> fmt_d n = [digit n]"
  by (simp add: fmt_d.simps)

lemma fmt_d_step: "10 \<le> n \<Longrightarrow> fmt_d n = fmt_d (n div 10) @ [digit (n mod 10)]"
  by (subst fmt_d.simps) simp

text \<open>
  C9: \<open>IPProto.String\<close> is a closed mapping: the TCP number (6) gives "TCP", the UDP
  number (17) gives "UDP", and every other value \<open>n\<close> gives the fallback "IP(n)" with
  \<open>n\<close> in decimal.
\<close>

theorem IPProto_String_closed_mapping:
  "IPProto_String IPPROTO_TCP = ''TCP'' \<and>
   IPProto_String IPPROTO_UDP = ''UDP'' \<and>
   unat IPPROTO_TCP = 6 \<and> unat IPPROTO_UDP = 17 \<and>
   (p \<noteq> IPPROTO_TCP \<longrightarrow> p \<noteq> IPPROTO_UDP \<longrightarrow>
      IPProto_String p = ''IP('' @ fmt_d (unat p) @ '')'')"
  by (simp add: IPProto_String_def IPPROTO_TCP_def IPPROTO_UDP_def)

theorem IPProto_String_closed_mapping_witness:
  "IPProto_String 6 = ''TCP'' \<and> IPProto_String 17 = ''UDP'' \<and>
   IPProto_String 1 = ''IP(1)'' \<and> IPProto_String 132 = ''IP(132)''"
  using IPProto_String_closed_mapping [of 1] IPProto_String_closed_mapping [of 132]
  by (simp add: IPPROTO_TCP_def IPPROTO_UDP_def fmt_d_digit fmt_d_step digit_def)

text \<open>
  C1: \<open>GetService\<close> succeeds exactly when the filtered dump returns no error and
  exactly one entity, and then returns that entity; when the dump returns no error and
  a number of entities other than one, it returns no service and the error
  "Expected only one service obtained=N" with \<open>N\<close> the number obtained.
\<close>

theorem GetService_exactly_one:
  "(snd (GetService doGetServicesCmd i s) = None \<longleftrightarrow>
      (\<exists>x. doGetServicesCmd i s = ([x], None))) \<and>
   (\<forall>x. doGetServicesCmd i s = ([x], None) \<longrightarrow>
      GetService doGetServicesCmd i s = (x, None)) \<and>
   (\<forall>res. doGetServicesCmd i s = (res, None) \<longrightarrow> length res \<noteq> 1 \<longrightarrow>
      GetService doGetServicesCmd i s =
        (None, Some (Errorf (''Expected only one service obtained='' @ fmt_d (length res)))))"
proof -
  obtain res err where dump: "doGetServicesCmd i s = (res, err)"
    by (cases "doGetServicesCmd i s")
  have one: "length res = 1 \<longleftrightarrow> (\<exists>x. res = [x])"
    by (cases res) auto
  show ?thesis
  proof (cases err)
    case None
    with dump one show ?thesis
      by (auto simp add: GetService_def)
  next
    case (Some e)
    with dump show ?thesis
      by (simp add: GetService_def)
  qed
qed

text \<open>Dumps that yield 0, 1 and 2 entities.\<close>

theorem GetService_exactly_one_witness:
  "GetService (\<lambda>i s. ([], None)) None (Some Service_zero) =
     (None, Some (Errorf ''Expected only one service obtained=0'')) \<and>
   GetService (\<lambda>i s. ([s], None)) None (Some Service_zero) = (Some Service_zero, None) \<and>
   GetService (\<lambda>i s. ([s, None], None)) None (Some Service_zero) =
     (None, Some (Errorf ''Expected only one service obtained=2''))"
  using GetService_exactly_one [of "\<lambda>i s. ([], None)" None "Some Service_zero"]
    GetService_exactly_one [of "\<lambda>i s. ([s], None)" None "Some Service_zero"]
    GetService_exactly_one [of "\<lambda>i s. ([s, None], None)" None "Some Service_zero"]
  by (simp add: fmt_d_digit digit_def)

text \<open>
  C4: \<open>IsServicePresent\<close> is true exactly when the Get command returns no error, and
  two failing Get commands give the same answer whatever their errors are: the result
  carries nothing of the error.
\<close>

theorem IsServicePresent_iff_Get_succeeds:
  "(IsServicePresent doCmd i s \<longleftrightarrow> doCmd i s None ipvsCmdGetService = None) \<and>
   (doCmd i s None ipvsCmdGetService = Some e \<longrightarrow>
    doCmd' i s None ipvsCmdGetService = Some e' \<longrightarrow>
      IsServicePresent doCmd i s = IsServicePresent doCmd' i s)"
  by (auto simp add: IsServicePresent_def)

text \<open>A Get that succeeds, and two that fail with different errors.\<close>

theorem IsServicePresent_iff_Get_succeeds_witness:
  "IsServicePresent (\<lambda>i s d c. None) None (Some Service_zero) \<and>
   \<not> IsServicePresent (\<lambda>i s d c. Some (Errno 2)) None (Some Service_zero) \<and>
   IsServicePresent (\<lambda>i s d c. Some (Errno 2)) None (Some Service_zero) =
     IsServicePresent (\<lambda>i s d c. Some (Errorf ''timeout'')) None (Some Service_zero)"
  using IsServicePresent_iff_Get_succeeds
      [of "\<lambda>i s d c. None" None "Some Service_zero"]
    IsServicePresent_iff_Get_succeeds
      [of "\<lambda>i s d c. Some (Errno 2)" None "Some Service_zero" "Errno 2"
          "\<lambda>i s d c. Some (Errorf ''timeout'')" "Errorf ''timeout''"]
  by auto

text \<open>
  C10: for two services with the same \<open>FWMark > 0\<close> and the same \<open>SchedName\<close>,
  \<open>Service.String\<close> returns the same string, whatever their other fields are (and
  whatever \<open>net.IP\<close>'s methods answer): the string is built from \<open>FWMark\<close> and
  \<open>SchedName\<close> alone.
\<close>

theorem Service_String_fwmark_mode:
  "FWMark a = FWMark b \<Longrightarrow> 0 < FWMark a \<Longrightarrow> SchedName a = SchedName b \<Longrightarrow>
     Service_String To4 IP_String a = Service_String To4' IP_String' b \<and>
     Service_String To4 IP_String a =
       ''FMW '' @ fmt_d (unat (FWMark a)) @ '' ('' @ SchedName a @ '')''"
  by (simp add: Service_String_def)

text \<open>Two services with mark 7 and scheduler "rr" that differ in every other field set.\<close>

theorem Service_String_fwmark_mode_witness:
  "Service_String (\<lambda>ip. None) (\<lambda>ip. [])
     (Service_zero\<lparr>FWMark := 7, SchedName := ''rr'', Address := [10, 0, 0, 1],
        Protocol := 6, Port := 80\<rparr>) =
   Service_String (\<lambda>ip. Some ip) (\<lambda>ip. ''::1'')
     (Service_zero\<lparr>FWMark := 7, SchedName := ''rr'', Protocol := 17, Port := 53,
        Flags := 1, PEName := ''sip''\<rparr>) \<and>
   Service_String (\<lambda>ip. None) (\<lambda>ip. [])
     (Service_zero\<lparr>FWMark := 7, SchedName := ''rr'', Address := [10, 0, 0, 1],
        Protocol := 6, Port := 80\<rparr>) = ''FMW 7 (rr)''"
  using Service_String_fwmark_mode
      [of "Service_zero\<lparr>FWMark := 7, SchedName := ''rr'', Address := [10, 0, 0, 1],
             Protocol := 6, Port := 80\<rparr>"
          "Service_zero\<lparr>FWMark := 7, SchedName := ''rr'', Protocol := 17, Port := 53,
             Flags := 1, PEName := ''sip''\<rparr>"
          "\<lambda>ip. None" "\<lambda>ip. []" "\<lambda>ip. Some ip" "\<lambda>ip. ''::1''"]
  by (auto simp add: fmt_d_digit digit_def)

subsection \<open>The version bytes\<close>

lemma ff_mask: "(0xff :: 64 word) = mask 8"
  by (simp add: mask_eq_exp_minus_1)

lemma unat_widen:
  fixes v :: "32 word"
  shows "unat (ucast v :: 64 word) = unat v"
proof -
  have "unat v < 2 ^ 32"
    using unsigned_less [of v] by simp
  then have "unat v < 2 ^ 64"
    by simp
  then show ?thesis
    by (simp add: unsigned_ucast_eq take_bit_nat_eq_self)
qed

lemma byte_bits:
  fixes v :: "32 word"
  shows "bit ((drop_bit k (ucast v :: 64 word)) AND 0xff) n \<longleftrightarrow> n < 8 \<and> bit v (n + k)"
  unfolding ff_mask
  by (auto simp add: bit_simps ac_simps dest: bit_imp_le_length)

lemma byte_unat:
  fixes v :: "32 word"
  shows "unat ((drop_bit k (ucast v :: 64 word)) AND 0xff) = unat v div 2 ^ k mod 256"
proof -
  have "unat ((drop_bit k (ucast v :: 64 word)) AND mask 8) =
        take_bit 8 (drop_bit k (unat (ucast v :: 64 word)))"
    by (simp add: unsigned_take_bit_eq unat_drop_bit_eq flip: take_bit_eq_mask)
  also have "\<dots> = unat v div 2 ^ k mod 256"
    by (simp add: unat_widen take_bit_eq_mod drop_bit_eq_div)
  finally show ?thesis
    by (simp only: ff_mask)
qed

text \<open>
  C3: when the kernel exchange succeeds with the 32-bit version \<open>v\<close>, \<open>GetInfo\<close>
  returns \<open>Version\<close> with \<open>Major\<close> = bits 16-23 of \<open>v\<close>, \<open>Minor\<close> = bits 8-15
  and \<open>Patch\<close> = bits 0-7, each at most 255.
\<close>

theorem GetInfo_version_decode:
  "doGetInfoCmd i = (res, None) \<Longrightarrow>
     \<exists>ver. GetInfo doGetInfoCmd i =
             (Some \<lparr>Version = Some ver, ConnTableSize = connTableSize res\<rparr>, None) \<and>
       (\<forall>n. bit (Major ver) n \<longleftrightarrow> n < 8 \<and> bit (version res) (n + 16)) \<and>
       (\<forall>n. bit (Minor ver) n \<longleftrightarrow> n < 8 \<and> bit (version res) (n + 8)) \<and>
       (\<forall>n. bit (Patch ver) n \<longleftrightarrow> n < 8 \<and> bit (version res) n) \<and>
       unat (Major ver) = unat (version res) div 2 ^ 16 mod 256 \<and>
       unat (Minor ver) = unat (version res) div 2 ^ 8 mod 256 \<and>
       unat (Patch ver) = unat (version res) mod 256 \<and>
       unat (Major ver) \<le> 255 \<and> unat (Minor ver) \<le> 255 \<and> unat (Patch ver) \<le> 255"
proof -
  assume dump: "doGetInfoCmd i = (res, None)"
  define ver where "ver = (ucast (version res) :: uint)"
  define V where
    "V = \<lparr>Major = (drop_bit 16 ver) AND 0xff, Minor = (drop_bit 8 ver) AND 0xff,
          Patch = (drop_bit 0 ver) AND 0xff\<rparr>"
  have result: "GetInfo doGetInfoCmd i =
      (Some \<lparr>Version = Some V, ConnTableSize = connTableSize res\<rparr>, None)"
    using dump by (simp add: GetInfo_def V_def ver_def Let_def)
  have bits: "bit (Major V) n \<longleftrightarrow> n < 8 \<and> bit (version res) (n + 16)"
    "bit (Minor V) n \<longleftrightarrow> n < 8 \<and> bit (version res) (n + 8)"
    "bit (Patch V) n \<longleftrightarrow> n < 8 \<and> bit (version res) n" for n
    using byte_bits [of 16 "version res" n] byte_bits [of 8 "version res" n]
      byte_bits [of 0 "version res" n]
    by (simp_all add: V_def ver_def)
  have nums: "unat (Major V) = unat (version res) div 2 ^ 16 mod 256"
    "unat (Minor V) = unat (version res) div 2 ^ 8 mod 256"
    "unat (Patch V) = unat (version res) mod 256"
    using byte_unat [of 16 "version res"] byte_unat [of 8 "version res"]
      byte_unat [of 0 "version res"]
    by (simp_all add: V_def ver_def)
  have bounds: "unat (Major V) \<le> 255" "unat (Minor V) \<le> 255" "unat (Patch V) \<le> 255"
    unfolding nums by simp_all
  from result bits nums bounds show ?thesis
    by blast
qed

text \<open>The version \<open>0x010203\<close> decodes to 1.2.3.\<close>

theorem GetInfo_version_decode_witness:
  "GetInfo (\<lambda>i. (\<lparr>version = 0x010203, connTableSize = 4096\<rparr>, None)) None =
     (Some \<lparr>Version = Some \<lparr>Major = 1, Minor = 2, Patch = 3\<rparr>, ConnTableSize = 4096\<rparr>, None)"
proof -
  obtain ver where r: "GetInfo (\<lambda>i. (\<lparr>version = 0x010203, connTableSize = 4096\<rparr>, None)) None =
        (Some \<lparr>Version = Some ver, ConnTableSize = 4096\<rparr>, None)"
    and "unat (Major ver) = 1" "unat (Minor ver) = 2" "unat (Patch ver) = 3"
    using GetInfo_version_decode
      [of "\<lambda>i. (\<lparr>version = 0x010203, connTableSize = 4096\<rparr>, None)" None
          "\<lparr>version = 0x010203, connTableSize = 4096\<rparr>"]
    by auto
  then have "Major ver = 1" "Minor ver = 2" "Patch ver = 3"
    by (simp_all add: word_unat_eq_iff)
  then have "ver = \<lparr>Major = 1, Minor = 2, Patch = 3\<rparr>"
    by (cases ver) simp
  with r show ?thesis
    by simp
qed

subsection \<open>The returns of New\<close>

text \<open>
  Every return of \<open>New\<close> after the namespace is resolved: the socket cannot be
  opened; the send timeout is refused; or both timeouts were requested and the result
  follows the answer to the receive timeout.
\<close>

lemma New_socket_cases:
  "New_socket X n t = (r, t') \<Longrightarrow>
     (\<exists>err. GetNetlinkSocketAt X n netns_None NETLINK_GENERIC = Inl err \<and>
        r = (None, Some err) \<and>
        t' = t @ [Call_GetNetlinkSocketAt n netns_None NETLINK_GENERIC, Call_NsHandle_Close n]) \<or>
     (\<exists>sk. GetNetlinkSocketAt X n netns_None NETLINK_GENERIC = Inr sk \<and>
        t' = t @ [Call_GetNetlinkSocketAt n netns_None NETLINK_GENERIC,
                  Call_SetSendTimeout sk (NsecToTimeval X 30000000000),
                  Call_NsHandle_Close n] \<and>
        r = (None, SetSendTimeout X sk (NsecToTimeval X 30000000000)) \<and>
        SetSendTimeout X sk (NsecToTimeval X 30000000000) \<noteq> None) \<or>
     (\<exists>sk. GetNetlinkSocketAt X n netns_None NETLINK_GENERIC = Inr sk \<and>
        t' = t @ [Call_GetNetlinkSocketAt n netns_None NETLINK_GENERIC,
                  Call_SetSendTimeout sk (NsecToTimeval X 30000000000),
                  Call_SetReceiveTimeout sk (NsecToTimeval X 3000000000),
                  Call_NsHandle_Close n] \<and>
        SetSendTimeout X sk (NsecToTimeval X 30000000000) = None \<and>
        (case SetReceiveTimeout X sk (NsecToTimeval X 3000000000) of
           Some err \<Rightarrow> r = (None, Some err)
         | None \<Rightarrow> r = (Some \<lparr>seq = 0, sock = Some sk\<rparr>, None)))"
  by (auto simp add: New_socket_def Let_def Nanoseconds_def netlinkSendSocketTimeout_def
      netlinkRecvSocketsTimeout_def Second_def split: sum.splits option.splits)

lemma New_cases:
  "New X path = (r, t') \<Longrightarrow>
     (path \<noteq> [] \<and> (\<exists>err. GetFromPath X path = Inl err \<and> r = (None, Some err) \<and>
        t' = [Call_setup, Call_GetFromPath path])) \<or>
     (path \<noteq> [] \<and> (\<exists>n. GetFromPath X path = Inr n \<and>
        New_socket X n [Call_setup, Call_GetFromPath path] = (r, t'))) \<or>
     (path = [] \<and> New_socket X netns_None [Call_setup] = (r, t'))"
  by (auto simp add: New_def split: sum.splits if_splits)



text \<open>
  The timeouts of \<open>New\<close>: a Handle that \<open>New\<close> returns holds a socket on which
  \<open>New\<close> has set, with success and before returning, the send timeout of 30 seconds
  and the receive timeout of 3 seconds (as \<open>NsecToTimeval\<close> converts them);
  \<open>New\<close> sets no other timeout value, and when either setting is refused \<open>New\<close>
  returns that error and no Handle. This is the part of C8 that is about \<open>New\<close>.
  How long a later operation on the Handle can take is not expressed here: the
  embedding has no clock, and the later operations exchange their messages in
  methods whose bodies are not in ipvs.go.
\<close>

theorem New_timeouts:
  "(\<forall>h t. New X path = ((Some h, None), t) \<longrightarrow>
      (\<exists>sk. sock h = Some sk \<and>
         Call_SetSendTimeout sk (NsecToTimeval X 30000000000) \<in> set t \<and>
         SetSendTimeout X sk (NsecToTimeval X 30000000000) = None \<and>
         Call_SetReceiveTimeout sk (NsecToTimeval X 3000000000) \<in> set t \<and>
         SetReceiveTimeout X sk (NsecToTimeval X 3000000000) = None)) \<and>
   (\<forall>sk tv. Call_SetSendTimeout sk tv \<in> set (snd (New X path)) \<longrightarrow>
      tv = NsecToTimeval X 30000000000 \<and>
      (\<forall>err. SetSendTimeout X sk tv = Some err \<longrightarrow> fst (New X path) = (None, Some err))) \<and>
   (\<forall>sk tv. Call_SetReceiveTimeout sk tv \<in> set (snd (New X path)) \<longrightarrow>
      tv = NsecToTimeval X 3000000000 \<and>
      (\<forall>err. SetReceiveTimeout X sk tv = Some err \<longrightarrow> fst (New X path) = (None, Some err)))"
proof -
  obtain r t' where N: "New X path = (r, t')"
    by (cases "New X path")
  from New_cases [OF N] show ?thesis
  proof (elim disjE conjE exE)
    fix err
    assume "r = (None, Some err)" "t' = [Call_setup, Call_GetFromPath path]"
    with N show ?thesis
      by simp
  next
    fix n
    assume "New_socket X n [Call_setup, Call_GetFromPath path] = (r, t')"
    from New_socket_cases [OF this] N show ?thesis
      by (elim disjE conjE exE) (auto split: option.splits)
  next
    assume "New_socket X netns_None [Call_setup] = (r, t')"
    from New_socket_cases [OF this] N show ?thesis
      by (elim disjE conjE exE) (auto split: option.splits)
  qed
qed

text \<open>A construction that succeeds, and one whose receive timeout is refused (errno 22).\<close>

theorem New_timeouts_example:
  "New all_succeed ''/var/run/netns/blue'' =
     ((Some \<lparr>seq = 0, sock = Some (NetlinkSocket 3)\<rparr>, None),
      [Call_setup, Call_GetFromPath ''/var/run/netns/blue'',
       Call_GetNetlinkSocketAt 7 (- 1) 16,
       Call_SetSendTimeout (NetlinkSocket 3) \<lparr>Sec = 30, Usec = 0\<rparr>,
       Call_SetReceiveTimeout (NetlinkSocket 3) \<lparr>Sec = 3, Usec = 0\<rparr>,
       Call_NsHandle_Close 7]) \<and>
   Call_SetSendTimeout (NetlinkSocket 3) \<lparr>Sec = 30, Usec = 0\<rparr>
     \<in> set (snd (New all_succeed ''/var/run/netns/blue'')) \<and>
   Call_SetReceiveTimeout (NetlinkSocket 3) \<lparr>Sec = 3, Usec = 0\<rparr>
     \<in> set (snd (New all_succeed ''/var/run/netns/blue'')) \<and>
   fst (New (all_succeed\<lparr>SetReceiveTimeout := \<lambda>sk tv. Some (Errno 22)\<rparr>) []) =
     (None, Some (Errno 22))"
proof -
  have run: "New all_succeed ''/var/run/netns/blue'' =
     ((Some \<lparr>seq = 0, sock = Some (NetlinkSocket 3)\<rparr>, None),
      [Call_setup, Call_GetFromPath ''/var/run/netns/blue'',
       Call_GetNetlinkSocketAt 7 (- 1) 16,
       Call_SetSendTimeout (NetlinkSocket 3) \<lparr>Sec = 30, Usec = 0\<rparr>,
       Call_SetReceiveTimeout (NetlinkSocket 3) \<lparr>Sec = 3, Usec = 0\<rparr>,
       Call_NsHandle_Close 7])"
    by (simp add: New_def New_socket_def all_succeed_def netns_None_def NETLINK_GENERIC_def
        Nanoseconds_def netlinkSendSocketTimeout_def netlinkRecvSocketsTimeout_def Second_def
        unix_NsecToTimeval_def go_quo_def go_rem_def)
  have tvs: "NsecToTimeval all_succeed 30000000000 = \<lparr>Sec = 30, Usec = 0\<rparr>"
    "NsecToTimeval all_succeed 3000000000 = \<lparr>Sec = 3, Usec = 0\<rparr>"
    by (simp_all add: all_succeed_def unix_NsecToTimeval_def go_quo_def go_rem_def)
  have called: "Call_SetReceiveTimeout (NetlinkSocket 3) \<lparr>Sec = 3, Usec = 0\<rparr>
      \<in> set (snd (New (all_succeed\<lparr>SetReceiveTimeout := \<lambda>sk tv. Some (Errno 22)\<rparr>) []))"
    by (simp add: New_def New_socket_def all_succeed_def netns_None_def NETLINK_GENERIC_def
        Nanoseconds_def netlinkSendSocketTimeout_def netlinkRecvSocketsTimeout_def Second_def
        unix_NsecToTimeval_def go_quo_def go_rem_def)
  from New_timeouts [of all_succeed "''/var/run/netns/blue''"] run tvs
  have ok: "Call_SetSendTimeout (NetlinkSocket 3) \<lparr>Sec = 30, Usec = 0\<rparr>
       \<in> set (snd (New all_succeed ''/var/run/netns/blue'')) \<and>
     Call_SetReceiveTimeout (NetlinkSocket 3) \<lparr>Sec = 3, Usec = 0\<rparr>
       \<in> set (snd (New all_succeed ''/var/run/netns/blue''))"
    by simp
  from New_timeouts
    [of "all_succeed\<lparr>SetReceiveTimeout := \<lambda>sk tv. Some (Errno 22)\<rparr>" "[]"] called
  have "fst (New (all_succeed\<lparr>SetReceiveTimeout := \<lambda>sk tv. Some (Errno 22)\<rparr>) []) =
     (None, Some (Errno 22))"
    by simp
  with run ok show ?thesis
    by simp
qed

text \<open>
  C6, as stated, fails after a construction error: what \<open>New\<close> returns then is a
  nil \<open>*Handle\<close>, and \<open>Close\<close> on it dereferences nil.
\<close>

theorem Close_after_failed_New_panics:
  "fst (New (all_succeed\<lparr>GetFromPath := \<lambda>path. Inl (Errno 2)\<rparr>) ''/var/run/netns/missing'') =
     (None, Some (Errno 2)) \<and>
   Close (fst (fst (New (all_succeed\<lparr>GetFromPath := \<lambda>path. Inl (Errno 2)\<rparr>)
     ''/var/run/netns/missing''))) = Inl nil_pointer_dereference"
  by (simp add: New_def Close_def all_succeed_def)

text \<open>
  C6, amended: \<open>Close\<close> on any non-nil Handle returns normally; with a nil socket it
  makes no call at all, and otherwise its one call is the socket's \<open>Close\<close>.
\<close>

theorem Close_non_nil_Handle_returns:
  "(\<exists>t. Close (Some h) = Inr t) \<and>
   (sock h = None \<longrightarrow> Close (Some h) = Inr []) \<and>
   (\<forall>sk. sock h = Some sk \<longrightarrow> Close (Some h) = Inr [Call_NetlinkSocket_Close sk])"
  by (simp add: Close_def split: option.splits)

text \<open>A Handle with a nil socket, and one with socket 3.\<close>

theorem Close_non_nil_Handle_returns_witness:
  "Close (Some \<lparr>seq = 0, sock = None\<rparr>) = Inr [] \<and>
   Close (Some \<lparr>seq = 5, sock = Some (NetlinkSocket 3)\<rparr>) =
     Inr [Call_NetlinkSocket_Close (NetlinkSocket 3)]"
  using Close_non_nil_Handle_returns [of "\<lparr>seq = 0, sock = None\<rparr>"]
    Close_non_nil_Handle_returns [of "\<lparr>seq = 5, sock = Some (NetlinkSocket 3)\<rparr>"]
  by simp

text \<open>
  C2: for a Service with \<open>FWMark > 0\<close>, whatever its address, protocol and port, the
  only identity attribute of the encoded tree is the firewall mark, and no
  address-family, protocol, address or port attribute occurs anywhere in the tree;
  every encoded Service carries exactly one of the two identity forms.
\<close>

theorem encode_Service_one_identity_mode:
  "(0 < FWMark s \<longrightarrow>
      filter identity_type (attr_types (encode_Service flags_mask s)) = [SvcAttrFWMark] \<and>
      set (attr_types (encode_Service flags_mask s)) \<inter>
        {SvcAttrAddressFamily, SvcAttrProtocol, SvcAttrAddress, SvcAttrPort} = {}) \<and>
   (filter identity_type (attr_types (encode_Service flags_mask s)) = [SvcAttrFWMark] \<or>
    filter identity_type (attr_types (encode_Service flags_mask s)) =
      [SvcAttrAddressFamily, SvcAttrProtocol, SvcAttrAddress, SvcAttrPort])"
  by (simp add: encode_Service_def identity_attributes_def option_attributes_def
      identity_type_def)

text \<open>The Service with mark 7 and address 10.0.0.1, protocol 6, port 80 set.\<close>

theorem encode_Service_one_identity_mode_witness:
  "attr_types (encode_Service 0xffffffff
     (Service_zero\<lparr>FWMark := 7, Address := [10, 0, 0, 1], Protocol := 6, Port := 80,
        SchedName := ''rr''\<rparr>)) =
     [CmdAttrService, SvcAttrFWMark, SvcAttrSchedName, SvcAttrFlags, SvcAttrTimeout,
      SvcAttrNetmask] \<and>
   filter identity_type (attr_types (encode_Service 0xffffffff
     (Service_zero\<lparr>FWMark := 7, Address := [10, 0, 0, 1], Protocol := 6, Port := 80,
        SchedName := ''rr''\<rparr>))) = [SvcAttrFWMark]"
proof -
  have tree: "attr_types (encode_Service 0xffffffff
     (Service_zero\<lparr>FWMark := 7, Address := [10, 0, 0, 1], Protocol := 6, Port := 80,
        SchedName := ''rr''\<rparr>)) =
     [CmdAttrService, SvcAttrFWMark, SvcAttrSchedName, SvcAttrFlags, SvcAttrTimeout,
      SvcAttrNetmask]"
    by (simp add: encode_Service_def identity_attributes_def option_attributes_def
        Service_zero_def)
  from encode_Service_one_identity_mode
    [of "Service_zero\<lparr>FWMark := 7, Address := [10, 0, 0, 1], Protocol := 6, Port := 80,
        SchedName := ''rr''\<rparr>" "0xffffffff"]
  have "filter identity_type (attr_types (encode_Service 0xffffffff
     (Service_zero\<lparr>FWMark := 7, Address := [10, 0, 0, 1], Protocol := 6, Port := 80,
        SchedName := ''rr''\<rparr>))) = [SvcAttrFWMark]"
    by simp
  with tree show ?thesis
    by simp
qed

end
